theory Spec2Isabelle
  imports Main
begin

section \<open>Values exchanged with the model service\<close>

text \<open>
  The value that \<^verbatim>\<open>json.loads\<close> returns: any JSON document, not only an object.
  Numbers are kept as integers; the processor only tests them for truth (non-zero).
  An object keeps its members in order, as a Python dict does; its keys are distinct.
\<close>

datatype json =
    JNull
  | JBool bool
  | JNum int
  | JStr string
  | JArr "json list"
  | JObj "(string \<times> json) list"

text \<open>
  One invocation of \<^verbatim>\<open>self.model.generate_content\<close> followed by reading
  \<^verbatim>\<open>responses.candidates[0].content.parts[0].text\<close> either yields the textual
  payload, raises \<^verbatim>\<open>ResourceExhausted\<close> (the rate-limit failure), or raises any
  other \<^verbatim>\<open>Exception\<close> (a timeout, an empty candidate list, and so on).
\<close>

datatype outcome = Text string | ResourceExhausted | OtherException

text \<open>The effects of \<^verbatim>\<open>generate\<close> that can be observed from outside, in order.\<close>

datatype event = GenerateContent | Sleep int

section \<open>\<^verbatim>\<open>HighQualityTextProcessor.generate\<close>\<close>

text \<open>
  The \<^verbatim>\<open>while tries < self.max_retries\<close> loop. \<open>generate_content n\<close> is the outcome of the
  invocation made after \<open>n\<close> earlier invocations of the same call, \<open>loads\<close> is
  \<^verbatim>\<open>json.loads\<close> (\<open>None\<close> when it raises), \<open>calls\<close> counts the invocations made so
  far and \<open>trace\<close> records the effects so far. A successful parse returns from inside
  the loop; an exception that is not \<^verbatim>\<open>ResourceExhausted\<close> (from the service or from
  the parse) breaks out of it; both \<^verbatim>\<open>break\<close> and the loop's end reach
  \<^verbatim>\<open>return {}\<close>.
\<close>

function generate_loop ::
  "int \<Rightarrow> (nat \<Rightarrow> outcome) \<Rightarrow> (string \<Rightarrow> json option) \<Rightarrow> int \<Rightarrow> nat \<Rightarrow> event list
     \<Rightarrow> json \<times> event list" where
  "generate_loop max_retries generate_content loads tries calls trace =
     (if tries < max_retries then
        (case generate_content calls of
           Text output \<Rightarrow>
             (case loads output of
                Some v \<Rightarrow> (v, trace @ [GenerateContent])
              | None \<Rightarrow> (JObj [], trace @ [GenerateContent]))
         | ResourceExhausted \<Rightarrow>
             (let tries' = tries + 1;
                  wait_time = tries' * 2
              in generate_loop max_retries generate_content loads tries' (calls + 1)
                   (trace @ [GenerateContent, Sleep wait_time]))
         | OtherException \<Rightarrow> (JObj [], trace @ [GenerateContent]))
      else (JObj [], trace))"
  by pat_completeness auto
termination
  by (relation "measure (\<lambda>(max_retries, generate_content, loads, tries, calls, trace).
        nat (max_retries - tries))") auto

declare generate_loop.simps [simp del]

definition generate ::
  "int \<Rightarrow> (nat \<Rightarrow> outcome) \<Rightarrow> (string \<Rightarrow> json option) \<Rightarrow> json \<times> event list" where
  "generate max_retries generate_content loads =
     generate_loop max_retries generate_content loads 0 0 []"

text \<open>
  The effects of the rate-limit failures number \<open>i\<close> up to (not including) \<open>k\<close> of one
  call: each is one invocation followed by a sleep of twice its ordinal.
\<close>

definition backoff_events :: "nat \<Rightarrow> nat \<Rightarrow> event list" where
  "backoff_events i k =
     concat (map (\<lambda>j. [GenerateContent, Sleep (2 * (int j + 1))]) [i..<k])"

section \<open>The markup tree\<close>

text \<open>
  The tree that \<^verbatim>\<open>BeautifulSoup(text, 'html.parser')\<close> builds. A \<open>Tag\<close> has a name and
  children; the soup itself is the tag named \<^verbatim>\<open>[document]\<close>. A \<open>NavigableString\<close> is
  character data. \<open>Comment\<close> stands for the string nodes that \<^verbatim>\<open>get_text\<close> leaves out
  (comments, declarations, processing instructions).
\<close>

datatype element =
    Tag string "element list"
  | NavigableString string
  | Comment string

abbreviation LF :: char where "LF \<equiv> CHR 0x0A"

text \<open>\<^verbatim>\<open>element.name\<close>: \<^verbatim>\<open>None\<close> for a string node.\<close>

fun name :: "element \<Rightarrow> string option" where
  "name (Tag n cs) = Some n"
| "name (NavigableString s) = None"
| "name (Comment s) = None"

fun contents :: "element \<Rightarrow> element list" where
  "contents (Tag n cs) = cs"
| "contents (NavigableString s) = []"
| "contents (Comment s) = []"

text \<open>\<^verbatim>\<open>element.get_text()\<close>: the character data below the element, joined in order.\<close>

fun get_text :: "element \<Rightarrow> string" where
  "get_text (Tag n cs) = concat (map get_text cs)"
| "get_text (NavigableString s) = s"
| "get_text (Comment s) = []"

text \<open>
  \<^verbatim>\<open>element.string\<close>: a string node is its own string; a tag with exactly one child has
  that child's string; any other tag has none.
\<close>

fun string :: "element \<Rightarrow> string option" where
  "string (NavigableString s) = Some s"
| "string (Comment s) = Some s"
| "string (Tag n [c]) = string c"
| "string (Tag n cs) = None"

text \<open>
  The element and everything below it in document order, each paired with
  \<^verbatim>\<open>len(list(element.parents))\<close>; \<open>d\<close> is the number of parents of the element itself.
\<close>

fun walk :: "nat \<Rightarrow> element \<Rightarrow> (nat \<times> element) list" where
  "walk d (Tag n cs) = (d, Tag n cs) # concat (map (walk (Suc d)) cs)"
| "walk d (NavigableString s) = [(d, NavigableString s)]"
| "walk d (Comment s) = [(d, Comment s)]"

text \<open>\<^verbatim>\<open>soup.descendants\<close>, for the soup (which has no parent).\<close>

definition descendants :: "element \<Rightarrow> (nat \<times> element) list" where
  "descendants soup = concat (map (walk 1) (contents soup))"

section \<open>\<^verbatim>\<open>HighQualityTextProcessor.text_to_spans\<close>\<close>

record fragment =
  type :: string
  content :: string

definition tag_types :: "(string \<times> string) list" where
  "tag_types = [(''b'', ''bold''), (''i'', ''italic''), (''math'', ''math'')]"

text \<open>
  One pass of the loop body over an element with \<open>d\<close> parents: what it appends to
  \<^verbatim>\<open>spans\<close>.
\<close>

definition element_spans :: "nat \<times> element \<Rightarrow> fragment list" where
  "element_spans de =
     (let (d, element) = de in
      if \<not> d = 1 then []
      else
        (case (case name element of Some n \<Rightarrow> map_of tag_types n | None \<Rightarrow> None) of
           Some t \<Rightarrow> [\<lparr>type = t, content = get_text element\<rparr>]
         | None \<Rightarrow>
             (case string element of
                Some s \<Rightarrow> if s \<noteq> [] then [\<lparr>type = ''plain'', content = s\<rparr>] else []
              | None \<Rightarrow> [])))"

text \<open>
  \<open>BeautifulSoup\<close> is the tree builder, \<^verbatim>\<open>BeautifulSoup(text, 'html.parser')\<close>, a library
  outside this repository; \<^verbatim>\<open>text_to_spans\<close> is modelled for any tree builder.
\<close>

definition text_to_spans :: "(string \<Rightarrow> element) \<Rightarrow> string \<Rightarrow> fragment list" where
  "text_to_spans BeautifulSoup text =
     (let soup = BeautifulSoup text in concat (map element_spans (descendants soup)))"

section \<open>A tree builder for plain tags\<close>

text \<open>
  A model of the tree that the library's \<^verbatim>\<open>html.parser\<close> builder produces, for the markup
  the prompt asks the service for: character data, start tags \<^verbatim>\<open><name>\<close> and end tags
  \<^verbatim>\<open></name>\<close> whose names are lower-case letters and digits. A \<^verbatim>\<open><\<close> that does not open
  such a tag is character data. Outside the model are: tag names with upper-case letters
  (the library folds them to lower case, so that \<^verbatim>\<open><B>\<close> opens a \<^verbatim>\<open>b\<close>) or with other
  characters, attributes, character references, comments, declarations, and the raw text
  of \<^verbatim>\<open>script\<close> and \<^verbatim>\<open>style\<close>; the model takes such input for character data.
\<close>

datatype token = StartTag string | EndTag string | Data string

definition name_start :: "char \<Rightarrow> bool" where
  "name_start c = (c \<in> set ''abcdefghijklmnopqrstuvwxyz'')"

definition name_char :: "char \<Rightarrow> bool" where
  "name_char c = (name_start c \<or> c \<in> set ''0123456789'')"

text \<open>
  The tag that starts right after a \<^verbatim>\<open><\<close>, if there is one, and the number of
  characters it takes after the \<^verbatim>\<open><\<close>.
\<close>

definition scan_tag :: "string \<Rightarrow> (token \<times> nat) option" where
  "scan_tag cs =
     (let closing = (take 1 cs = ''/'');
          body = (if closing then drop 1 cs else cs);
          nm = takeWhile name_char body;
          rest = drop (length nm) body
      in if (case nm of [] \<Rightarrow> False | c # _ \<Rightarrow> name_start c) \<and> take 1 rest = ''>''
         then Some (if closing then EndTag nm else StartTag nm,
                    (if closing then 1 else 0) + length nm + 1)
         else None)"

fun add_data :: "char \<Rightarrow> token list \<Rightarrow> token list" where
  "add_data c (Data s # ts) = Data (c # s) # ts"
| "add_data c ts = Data [c] # ts"

fun tokens :: "string \<Rightarrow> token list" where
  "tokens [] = []"
| "tokens (c # cs) =
     (if c = CHR ''<'' then
        (case scan_tag cs of
           Some (t, n) \<Rightarrow> t # tokens (drop n cs)
         | None \<Rightarrow> add_data c (tokens cs))
      else add_data c (tokens cs))"

text \<open>
  The stack of open tags, innermost first; each frame is a tag's name and the children
  it has so far. The last frame is the soup.
\<close>

type_synonym frame = "string \<times> element list"

fun append_child :: "element \<Rightarrow> frame list \<Rightarrow> frame list" where
  "append_child e ((n, cs) # st) = (n, cs @ [e]) # st"
| "append_child e [] = []"

text \<open>Close the open tags down to and including the innermost one named \<open>nm\<close>.\<close>

fun pop_to_tag :: "string \<Rightarrow> frame list \<Rightarrow> frame list" where
  "pop_to_tag nm ((n, cs) # (m, ds) # st) =
     (if n = nm then (m, ds @ [Tag n cs]) # st
      else pop_to_tag nm ((m, ds @ [Tag n cs]) # st))"
| "pop_to_tag nm st = st"

definition empty_element_tags :: "string list" where
  "empty_element_tags =
     [''area'', ''base'', ''br'', ''col'', ''embed'', ''hr'', ''img'', ''input'', ''keygen'',
      ''link'', ''menuitem'', ''meta'', ''param'', ''source'', ''track'', ''wbr'',
      ''basefont'', ''bgsound'', ''command'', ''frame'', ''image'', ''isindex'', ''nextid'',
      ''spacer'']"

definition ascii_spaces :: "char list" where
  "ascii_spaces = [CHR 0x20, CHR 0x0A, CHR 0x09, CHR 0x0C, CHR 0x0D]"

text \<open>
  A run of character data that is all white space becomes one line feed, if it holds
  one, or else one space, unless a \<^verbatim>\<open>pre\<close> or \<^verbatim>\<open>textarea\<close> is open.
\<close>

definition end_data :: "frame list \<Rightarrow> string \<Rightarrow> string" where
  "end_data st s =
     (if list_ex (\<lambda>f. fst f = ''pre'' \<or> fst f = ''textarea'') st then s
      else if list_all (\<lambda>c. c \<in> set ascii_spaces) s
        then (if LF \<in> set s then [LF] else '' '')
      else s)"

fun build :: "token list \<Rightarrow> frame list \<Rightarrow> frame list" where
  "build [] st = st"
| "build (Data s # ts) st = build ts (append_child (NavigableString (end_data st s)) st)"
| "build (StartTag n # ts) st =
     build ts (if n \<in> set empty_element_tags then append_child (Tag n []) st
               else (n, []) # st)"
| "build (EndTag n # ts) st =
     build ts (if n \<in> set (map fst (butlast st)) then pop_to_tag n st else st)"

text \<open>At the end of the input every tag still open is closed.\<close>

fun close_all :: "frame list \<Rightarrow> element" where
  "close_all [] = Tag ''[document]'' []"
| "close_all [(n, cs)] = Tag n cs"
| "close_all ((n, cs) # (m, ds) # st) = close_all ((m, ds @ [Tag n cs]) # st)"

definition html_parser :: "string \<Rightarrow> element" where
  "html_parser text = close_all (build (tokens text) [(''[document]'', [])])"

section \<open>Blocks, lines, spans and the page\<close>

type_synonym polygon = "(int \<times> int) list"

text \<open>
  The fields of a block that the processor reads or writes. A Line is such a block; its
  \<open>structure\<close> lists the identities of its children, and is \<^verbatim>\<open>None\<close> for a block that
  was given none.
\<close>

record block =
  polygon :: polygon
  page_id :: nat
  "structure" :: "nat list option"

record span = block +
  "text" :: string
  font :: string
  font_weight :: int
  font_size :: int
  minimum_position :: int
  maximum_position :: int
  formats :: "string list"
  text_extraction_method :: string

text \<open>The page: the next free identity and the blocks registered with it.\<close>

record page_group =
  block_id :: nat
  children :: "(nat \<times> span) list"

text \<open>
  Modelled from the spec: \<^verbatim>\<open>PageGroup.add_full_block\<close> is not under src/. The spec has
  the page expose \<^verbatim>\<open>add_full_block(span) -> identity\<close> and says "register each new Span
  with the owning page (which allocates its identity)": the block is stored under a
  fresh identity, which is returned.
\<close>

definition add_full_block :: "page_group \<Rightarrow> span \<Rightarrow> page_group \<times> nat" where
  "add_full_block page b =
     (let i = block_id page
      in (page\<lparr>block_id := Suc i, children := children page @ [(i, b)]\<rparr>, i))"

section \<open>\<^verbatim>\<open>HighQualityTextProcessor.process_block_rewriting\<close>\<close>

datatype py_error = TypeError | KeyError | ValueError

text \<open>The call \<^verbatim>\<open>SpanClass(polygon=text_line.polygon, text=span['content'], ...)\<close>.\<close>

definition SpanClass :: "block \<Rightarrow> fragment \<Rightarrow> span" where
  "SpanClass text_line span =
     \<lparr>polygon = polygon text_line,
      page_id = page_id text_line,
      structure = None,
      text = content span,
      font = ''Unknown'',
      font_weight = 0,
      font_size = 0,
      minimum_position = 0,
      maximum_position = 0,
      formats = [type span],
      text_extraction_method = ''gemini''\<rparr>"

text \<open>
  The loop \<^verbatim>\<open>for span_idx, span in enumerate(corrected_spans)\<close>; \<open>len\<close> is
  \<^verbatim>\<open>len(corrected_spans)\<close>. The line's structure is a list here: the caller has just set it
  to the empty list.
\<close>

fun span_loop ::
  "int \<Rightarrow> page_group \<Rightarrow> block \<Rightarrow> nat \<Rightarrow> fragment list \<Rightarrow> page_group \<times> block" where
  "span_loop len page text_line span_idx [] = (page, text_line)"
| "span_loop len page text_line span_idx (span # rest) =
     (let span' = (if int span_idx = len - 1
                   then span\<lparr>content := content span @ [LF]\<rparr> else span);
          (page', span_block_id) = add_full_block page (SpanClass text_line span');
          text_line' = text_line\<lparr>structure :=
            map_option (\<lambda>ids. ids @ [span_block_id]) (structure text_line)\<rparr>
      in span_loop len page' text_line' (Suc span_idx) rest)"

text \<open>The body of the loop over \<^verbatim>\<open>zip(text_lines, corrected_lines)\<close>, for one pair.\<close>

definition rewrite_line ::
  "(string \<Rightarrow> element) \<Rightarrow> page_group \<Rightarrow> block \<Rightarrow> string \<Rightarrow> page_group \<times> block" where
  "rewrite_line BeautifulSoup page text_line corrected_text =
     (let text_line' = text_line\<lparr>structure := Some []\<rparr>;
          corrected_spans = text_to_spans BeautifulSoup corrected_text
      in span_loop (int (length corrected_spans)) page text_line' 0 corrected_spans)"

text \<open>
  The loop over \<^verbatim>\<open>zip(text_lines, corrected_lines)\<close>. It ends with the shorter list; the
  lines it does not reach stay as they are. The tree builder takes markup that is a
  string and raises on any other value.
\<close>

fun rewrite_lines ::
  "(string \<Rightarrow> element) \<Rightarrow> page_group \<Rightarrow> block list \<Rightarrow> json list
     \<Rightarrow> py_error + page_group \<times> block list" where
  "rewrite_lines BeautifulSoup page (text_line # ls) (c # cs) =
     (case c of
        JStr corrected_text \<Rightarrow>
          (let (page', text_line') = rewrite_line BeautifulSoup page text_line corrected_text
           in case rewrite_lines BeautifulSoup page' ls cs of
                Inl e \<Rightarrow> Inl e
              | Inr (page'', ls') \<Rightarrow> Inr (page'', text_line' # ls'))
      | _ \<Rightarrow> Inl TypeError)"
| "rewrite_lines BeautifulSoup page ls cs = Inr (page, ls)"

text \<open>Python's truth value of a JSON value.\<close>

fun truthy :: "json \<Rightarrow> bool" where
  "truthy JNull = False"
| "truthy (JBool b) = b"
| "truthy (JNum n) = (n \<noteq> 0)"
| "truthy (JStr s) = (s \<noteq> [])"
| "truthy (JArr xs) = (xs \<noteq> [])"
| "truthy (JObj members) = (members \<noteq> [])"

definition is_substring :: "string \<Rightarrow> string \<Rightarrow> bool" where
  "is_substring k s = list_ex (\<lambda>i. take (length k) (drop i s) = k) [0..<Suc (length s)]"

text \<open>
  \<^verbatim>\<open>key in response\<close>: a key of a dict, an element of a list, a substring of a string;
  a number, a truth value or \<^verbatim>\<open>None\<close> is not iterable.
\<close>

fun py_in :: "string \<Rightarrow> json \<Rightarrow> py_error + bool" where
  "py_in key (JObj members) = Inr (map_of members key \<noteq> None)"
| "py_in key (JArr xs) = Inr (JStr key \<in> set xs)"
| "py_in key (JStr s) = Inr (is_substring key s)"
| "py_in key v = Inl TypeError"

text \<open>\<^verbatim>\<open>response[key]\<close> for a string key: only a dict takes one.\<close>

fun getitem :: "json \<Rightarrow> string \<Rightarrow> py_error + json" where
  "getitem (JObj members) key =
     (case map_of members key of Some v \<Rightarrow> Inr v | None \<Rightarrow> Inl KeyError)"
| "getitem v key = Inl TypeError"

fun py_len :: "json \<Rightarrow> py_error + nat" where
  "py_len (JObj members) = Inr (length members)"
| "py_len (JArr xs) = Inr (length xs)"
| "py_len (JStr s) = Inr (length s)"
| "py_len v = Inl TypeError"

text \<open>What iterating over the value yields: elements, characters, or keys.\<close>

fun py_iter :: "json \<Rightarrow> py_error + json list" where
  "py_iter (JObj members) = Inr (map (\<lambda>m. JStr (fst m)) members)"
| "py_iter (JArr xs) = Inr xs"
| "py_iter (JStr s) = Inr (map (\<lambda>c. JStr [c]) s)"
| "py_iter v = Inl TypeError"

text \<open>
  Lines 163 to 165: \<^verbatim>\<open>corrected_lines\<close> is the empty list unless the response is truthy
  and holds the key.
\<close>

definition corrected_lines_of :: "json \<Rightarrow> py_error + json" where
  "corrected_lines_of response =
     (if truthy response then
        (case py_in ''corrected_lines'' response of
           Inl e \<Rightarrow> Inl e
         | Inr present \<Rightarrow>
             if present then getitem response ''corrected_lines'' else Inr (JArr []))
      else Inr (JArr []))"

text \<open>
  \<open>generate_content extracted_lines\<close> gives the outcomes of the service for the prompt
  built from these lines (and the image of the block); \<open>formatted_text\<close> is
  \<^verbatim>\<open>line.formatted_text(document)\<close>. The result is the page and the lines after the call,
  or the exception that escapes, and the effects of the call.
\<close>

definition process_block_rewriting ::
  "int \<Rightarrow> (string list \<Rightarrow> nat \<Rightarrow> outcome) \<Rightarrow> (string \<Rightarrow> json option) \<Rightarrow> (string \<Rightarrow> element)
     \<Rightarrow> (block \<Rightarrow> string) \<Rightarrow> page_group \<Rightarrow> block list
     \<Rightarrow> (py_error + page_group \<times> block list) \<times> event list" where
  "process_block_rewriting max_retries generate_content loads BeautifulSoup formatted_text
       page text_lines =
     (let extracted_lines = map formatted_text text_lines;
          (response, trace) = generate max_retries (generate_content extracted_lines) loads
      in (case corrected_lines_of response of
            Inl e \<Rightarrow> Inl e
          | Inr corrected_lines \<Rightarrow>
              if truthy corrected_lines then
                (case py_len corrected_lines of
                   Inl e \<Rightarrow> Inl e
                 | Inr n \<Rightarrow>
                     if n = length extracted_lines then
                       (case py_iter corrected_lines of
                          Inl e \<Rightarrow> Inl e
                        | Inr cs \<Rightarrow> rewrite_lines BeautifulSoup page text_lines cs)
                     else Inr (page, text_lines))
              else Inr (page, text_lines),
          trace))"

section \<open>\<^verbatim>\<open>HighQualityTextProcessor.rewrite_blocks\<close>\<close>

text \<open>
  A page with the eligible blocks it contains, each block given by its Lines. Every
  unit of work is submitted before any result is read, and the executor waits for all
  of them: a unit that raises does not keep the others from running, and its exception
  is raised to the caller at the end. The units are modelled as running one after the
  other, in the order they are submitted. A run that raises yields the exception of the
  first failing unit and the effects of all units; the document it leaves behind is not
  part of the result, and the units after a failing one are run on the page as it was
  before that unit.
\<close>

type_synonym page_blocks = "page_group \<times> block list list"

fun rewrite_page ::
  "int \<Rightarrow> (string list \<Rightarrow> nat \<Rightarrow> outcome) \<Rightarrow> (string \<Rightarrow> json option) \<Rightarrow> (string \<Rightarrow> element)
     \<Rightarrow> (block \<Rightarrow> string) \<Rightarrow> page_group \<Rightarrow> block list list
     \<Rightarrow> (py_error + page_blocks) \<times> event list" where
  "rewrite_page max_retries generate_content loads BeautifulSoup formatted_text page [] =
     (Inr (page, []), [])"
| "rewrite_page max_retries generate_content loads BeautifulSoup formatted_text page
       (b # bs) =
     (case process_block_rewriting max_retries generate_content loads BeautifulSoup
             formatted_text page b of
        (Inl e, trace) \<Rightarrow>
          (case rewrite_page max_retries generate_content loads BeautifulSoup formatted_text
                  page bs of
             (r, trace') \<Rightarrow> (Inl e, trace @ trace'))
      | (Inr (page', b'), trace) \<Rightarrow>
          (case rewrite_page max_retries generate_content loads BeautifulSoup formatted_text
                  page' bs of
             (Inl e, trace') \<Rightarrow> (Inl e, trace @ trace')
           | (Inr (page'', bs'), trace') \<Rightarrow> (Inr (page'', b' # bs'), trace @ trace')))"

fun rewrite_blocks ::
  "int \<Rightarrow> (string list \<Rightarrow> nat \<Rightarrow> outcome) \<Rightarrow> (string \<Rightarrow> json option) \<Rightarrow> (string \<Rightarrow> element)
     \<Rightarrow> (block \<Rightarrow> string) \<Rightarrow> page_blocks list
     \<Rightarrow> (py_error + page_blocks list) \<times> event list" where
  "rewrite_blocks max_retries generate_content loads BeautifulSoup formatted_text [] =
     (Inr [], [])"
| "rewrite_blocks max_retries generate_content loads BeautifulSoup formatted_text
       ((page, blocks) # pages) =
     (case rewrite_page max_retries generate_content loads BeautifulSoup formatted_text
             page blocks of
        (Inl e, trace) \<Rightarrow>
          (case rewrite_blocks max_retries generate_content loads BeautifulSoup
                  formatted_text pages of
             (r, trace') \<Rightarrow> (Inl e, trace @ trace'))
      | (Inr pb, trace) \<Rightarrow>
          (case rewrite_blocks max_retries generate_content loads BeautifulSoup
                  formatted_text pages of
             (Inl e, trace') \<Rightarrow> (Inl e, trace @ trace')
           | (Inr pages', trace') \<Rightarrow> (Inr (pb # pages'), trace @ trace')))"

section \<open>Construction and invocation of the processor\<close>

text \<open>
  The attributes of the processor, as \<^verbatim>\<open>super().__init__(config)\<close> leaves them, and
  \<^verbatim>\<open>self.model\<close>, the handle of the service.
\<close>

record processor =
  google_api_key :: "string option"
  model_name :: string
  high_quality :: bool
  max_retries :: int
  max_concurrency :: int
  timeout :: int
  model :: "string option"

definition init :: "processor \<Rightarrow> py_error + processor" where
  "init self =
     (let self1 = self\<lparr>model := None\<rparr>
      in if \<not> high_quality self1 then Inr self1
         else if google_api_key self1 = None then Inl ValueError
         else Inr (self1\<lparr>model := Some (model_name self1)\<rparr>))"

definition call ::
  "processor \<Rightarrow> (string list \<Rightarrow> nat \<Rightarrow> outcome) \<Rightarrow> (string \<Rightarrow> json option) \<Rightarrow> (string \<Rightarrow> element)
     \<Rightarrow> (block \<Rightarrow> string) \<Rightarrow> page_blocks list
     \<Rightarrow> (py_error + page_blocks list) \<times> event list" where
  "call self generate_content loads BeautifulSoup formatted_text document =
     (if \<not> high_quality self \<or> model self = None then (Inr document, [])
      else rewrite_blocks (max_retries self) generate_content loads BeautifulSoup
             formatted_text document)"

section \<open>\<^verbatim>\<open>Caption.assemble_html\<close> and \<^verbatim>\<open>Handwriting.assemble_html\<close>\<close>

text \<open>\<^verbatim>\<open>s.replace(old, new)\<close> for a non-empty \<open>old\<close>: every occurrence, left to right.\<close>

function replace :: "string \<Rightarrow> string \<Rightarrow> string \<Rightarrow> string" where
  "replace old new [] = []"
| "replace old new (c # cs) =
     (if old \<noteq> [] \<and> take (length old) (c # cs) = old
      then new @ replace old new (drop (length old) (c # cs))
      else c # replace old new cs)"
  by pat_completeness auto
termination
  by (relation "measure (\<lambda>(old, new, s). length s)") auto

text \<open>
  \<open>template\<close> is what \<^verbatim>\<open>super().assemble_html(document, child_blocks, parent_structure)\<close>
  returns.
\<close>

definition Caption_assemble_html :: "string \<Rightarrow> string" where
  "Caption_assemble_html template =
     (let template' = replace [LF] '' '' template in ''<p>'' @ template' @ ''</p>'')"

definition Handwriting_assemble_html :: "string \<Rightarrow> string" where
  "Handwriting_assemble_html template =
     (let template' = replace [LF] '' '' template in ''<p>'' @ template' @ ''</p>'')"

section \<open>Auxiliary notions for the statements\<close>

text \<open>
  The fragments of one line as the span loop hands them to \<^verbatim>\<open>SpanClass\<close>: the last one
  carries the added line feed.
\<close>

fun with_line_break :: "fragment list \<Rightarrow> fragment list" where
  "with_line_break [] = []"
| "with_line_break [f] = [f\<lparr>content := content f @ [LF]\<rparr>]"
| "with_line_break (f # g # fs) = f # with_line_break (g # fs)"

text \<open>
  Line \<open>l\<close> has been rewritten from the corrected text \<open>c\<close>: \<open>l'\<close> is the line afterwards
  and \<open>g\<close> the spans registered for it, each with its identity.
\<close>

definition line_rewritten ::
  "(string \<Rightarrow> element) \<Rightarrow> block \<Rightarrow> json \<Rightarrow> block \<Rightarrow> (nat \<times> span) list \<Rightarrow> bool" where
  "line_rewritten bs l c l' g =
     (\<exists>ctext. c = JStr ctext \<and> l' = l\<lparr>structure := Some (map fst g)\<rparr> \<and>
        map snd g = map (SpanClass l) (with_line_break (text_to_spans bs ctext)))"

section \<open>Properties of \<^verbatim>\<open>generate\<close>\<close>

lemma backoff_events_Suc:
  "i \<le> k \<Longrightarrow>
   backoff_events i (Suc k) = backoff_events i k @ [GenerateContent, Sleep (2 * (int k + 1))]"
  by (simp add: backoff_events_def)

lemma generate_loop_rate_limited:
  assumes "i \<le> k" and "int k \<le> retries"
    and "\<And>j. i \<le> j \<Longrightarrow> j < k \<Longrightarrow> svc j = ResourceExhausted"
  shows "generate_loop retries svc loads (int i) i trace =
         generate_loop retries svc loads (int k) k (trace @ backoff_events i k)"
  using assms
proof (induction k)
  case 0
  then show ?case by (simp add: backoff_events_def)
next
  case (Suc k)
  show ?case
  proof (cases "i = Suc k")
    case True
    then show ?thesis by (simp add: backoff_events_def)
  next
    case False
    with Suc.prems have ik: "i \<le> k" and kr: "int k < retries"
      and mk: "svc k = ResourceExhausted"
      by auto
    have "generate_loop retries svc loads (int i) i trace =
          generate_loop retries svc loads (int k) k (trace @ backoff_events i k)"
      using Suc.IH [OF ik] Suc.prems kr by simp
    also have "\<dots> = generate_loop retries svc loads (int (Suc k)) (Suc k)
                      (trace @ backoff_events i (Suc k))"
      using kr mk ik
      by (subst generate_loop.simps) (simp add: backoff_events_Suc Let_def algebra_simps)
    finally show ?thesis .
  qed
qed

text \<open>
  When every invocation is rate-limited, the call makes \<^verbatim>\<open>max_retries\<close> invocations, sleeps
  after each of them (twice its ordinal: the schedule is linear), the last one
  included, and returns the empty object.
\<close>

lemma generate_all_rate_limited:
  assumes "\<forall>j<nat retries. svc j = ResourceExhausted" and "0 \<le> retries"
  shows "generate retries svc loads = (JObj [], backoff_events 0 (nat retries))"
proof -
  have "generate retries svc loads =
        generate_loop retries svc loads (int (nat retries)) (nat retries)
          ([] @ backoff_events 0 (nat retries))"
    unfolding generate_def
    using generate_loop_rate_limited [of 0 "nat retries" retries svc loads "[]"] assms
    by simp
  also have "\<dots> = (JObj [], backoff_events 0 (nat retries))"
    using assms(2) by (subst generate_loop.simps) simp
  finally show ?thesis .
qed

text \<open>
  C1. With \<^verbatim>\<open>max_retries = 3\<close> and three rate-limit failures in a row, the call makes
  three invocations and sleeps after each of them, for 2, 4 and 6 seconds, before it
  returns the empty object: the third failure is followed by a sleep of 6 seconds and
  by no further invocation.
\<close>

theorem generate_three_rate_limits:
  "generate 3 (\<lambda>n. ResourceExhausted) (\<lambda>s. None) =
     (JObj [], [GenerateContent, Sleep 2, GenerateContent, Sleep 4, GenerateContent, Sleep 6])"
  by (simp add: generate_def generate_loop.simps)

text \<open>
  C2. When an invocation fails with anything but a rate-limit failure (the service raises
  another exception, or the payload does not parse), after \<open>k\<close> rate-limit failures
  earlier in the same call, \<^verbatim>\<open>generate\<close> returns the empty object and the failing
  invocation is the last effect of the call: no sleep and no invocation follows it. The
  only sleeps of the call are those of the \<open>k\<close> earlier rate-limit failures, none when
  the failure is at the first invocation.
\<close>

theorem generate_other_failure_returns_at_once:
  assumes "int k < retries"
    and "\<forall>j<k. svc j = ResourceExhausted"
    and "svc k = OtherException \<or> (\<exists>s. svc k = Text s \<and> loads s = None)"
  shows "generate retries svc loads =
           (JObj [], backoff_events 0 k @ [GenerateContent])"
proof -
  have "generate retries svc loads =
        generate_loop retries svc loads (int k) k ([] @ backoff_events 0 k)"
    unfolding generate_def
    using generate_loop_rate_limited [of 0 k retries svc loads "[]"] assms(1,2)
    by simp
  also have "\<dots> = (JObj [], backoff_events 0 k @ [GenerateContent])"
    using assms(1,3) by (subst generate_loop.simps) auto
  finally show ?thesis .
qed

theorem generate_other_failure_returns_at_once_witness:
  "generate 3 (\<lambda>n. OtherException) (\<lambda>s. None) = (JObj [], [GenerateContent])
   \<and> generate 3 (\<lambda>n. if n = 0 then ResourceExhausted else Text ''{'') (\<lambda>s. None) =
       (JObj [], [GenerateContent, Sleep 2, GenerateContent])"
proof -
  have a: "generate 3 (\<lambda>n. OtherException) (\<lambda>s. None) =
             (JObj [], backoff_events 0 0 @ [GenerateContent])"
    by (rule generate_other_failure_returns_at_once) simp_all
  have b: "generate 3 (\<lambda>n. if n = 0 then ResourceExhausted else Text ''{'') (\<lambda>s. None) =
             (JObj [], backoff_events 0 1 @ [GenerateContent])"
    by (rule generate_other_failure_returns_at_once) simp_all
  show ?thesis using a b by (simp add: backoff_events_def)
qed

section \<open>Properties of \<^verbatim>\<open>process_block_rewriting\<close>\<close>

lemmas parser_eval = text_to_spans_def html_parser_def scan_tag_def name_char_def
  name_start_def end_data_def ascii_spaces_def empty_element_tags_def descendants_def
  element_spans_def tag_types_def

lemmas run_eval = process_block_rewriting_def generate_def generate_loop.simps
  corrected_lines_of_def rewrite_line_def add_full_block_def SpanClass_def parser_eval

lemma SpanClass_structure [simp]: "SpanClass (l\<lparr>structure := x\<rparr>) = SpanClass l"
  by (rule ext) (simp add: SpanClass_def)

lemma span_loop_shape:
  "\<exists>ids. length ids = length frags \<and>
     span_loop (int (k + length frags)) page l k frags =
       (page\<lparr>block_id := block_id page + length frags,
             children := children page @ zip ids (map (SpanClass l) (with_line_break frags))\<rparr>,
        l\<lparr>structure := map_option (\<lambda>s. s @ ids) (structure l)\<rparr>)"
proof (induction frags arbitrary: k page l)
  case Nil
  have "map_option (\<lambda>s. s) (structure l) = structure l"
    by (cases "structure l") simp_all
  then show ?case by simp
next
  case (Cons f rest)
  define f' where "f' = (if rest = [] then f\<lparr>content := content f @ [LF]\<rparr> else f)"
  define page1 where
    "page1 = page\<lparr>block_id := Suc (block_id page),
                   children := children page @ [(block_id page, SpanClass l f')]\<rparr>"
  define l1 where
    "l1 = l\<lparr>structure := map_option (\<lambda>s. s @ [block_id page]) (structure l)\<rparr>"
  have step: "span_loop (int (k + length (f # rest))) page l k (f # rest) =
              span_loop (int (Suc k + length rest)) page1 l1 (Suc k) rest"
    by (simp add: f'_def page1_def l1_def add_full_block_def Let_def)
  from Cons.IH [of "Suc k" page1 l1] obtain ids where
    len: "length ids = length rest" and
    eq: "span_loop (int (Suc k + length rest)) page1 l1 (Suc k) rest =
       (page1\<lparr>block_id := block_id page1 + length rest,
             children := children page1 @ zip ids (map (SpanClass l1) (with_line_break rest))\<rparr>,
        l1\<lparr>structure := map_option (\<lambda>s. s @ ids) (structure l1)\<rparr>)"
    by blast
  have wlb: "with_line_break (f # rest) = f' # with_line_break rest"
    by (cases rest) (simp_all add: f'_def)
  have "length (block_id page # ids) = length (f # rest)" using len by simp
  moreover have "span_loop (int (k + length (f # rest))) page l k (f # rest) =
       (page\<lparr>block_id := block_id page + length (f # rest),
             children := children page @ zip (block_id page # ids)
               (map (SpanClass l) (with_line_break (f # rest)))\<rparr>,
        l\<lparr>structure := map_option (\<lambda>s. s @ (block_id page # ids)) (structure l)\<rparr>)"
    unfolding step eq wlb
    by (simp add: page1_def l1_def option.map_comp comp_def)
  ultimately show ?case by blast
qed

lemma rewrite_line_shape:
  "\<exists>ids. length ids = length (text_to_spans bs ctext) \<and>
     rewrite_line bs page l ctext =
       (page\<lparr>block_id := block_id page + length (text_to_spans bs ctext),
             children := children page @
               zip ids (map (SpanClass l) (with_line_break (text_to_spans bs ctext)))\<rparr>,
        l\<lparr>structure := Some ids\<rparr>)"
  using span_loop_shape [of "text_to_spans bs ctext" 0 page "l\<lparr>structure := Some []\<rparr>"]
  by (simp add: rewrite_line_def Let_def)

lemma rewrite_lines_shape:
  assumes "length cs = length ls"
    and "rewrite_lines bs page ls cs = Inr (page', ls')"
  shows "\<exists>groups. length groups = length ls \<and> length ls' = length ls \<and>
           children page' = children page @ concat groups \<and>
           (\<forall>i<length ls. line_rewritten bs (ls ! i) (cs ! i) (ls' ! i) (groups ! i))"
  using assms
proof (induction ls arbitrary: cs page page' ls')
  case Nil
  then show ?case by simp
next
  case (Cons l ls)
  then obtain c cs' where cs: "cs = c # cs'" and len: "length cs' = length ls"
    by (cases cs) simp_all
  from Cons.prems(2) cs obtain ctext where c: "c = JStr ctext"
    by (cases c) simp_all
  obtain ids where ids: "length ids = length (text_to_spans bs ctext)"
    and rl: "rewrite_line bs page l ctext =
       (page\<lparr>block_id := block_id page + length (text_to_spans bs ctext),
             children := children page @
               zip ids (map (SpanClass l) (with_line_break (text_to_spans bs ctext)))\<rparr>,
        l\<lparr>structure := Some ids\<rparr>)"
    using rewrite_line_shape by blast
  define g where "g = zip ids (map (SpanClass l) (with_line_break (text_to_spans bs ctext)))"
  define page1 where
    "page1 = page\<lparr>block_id := block_id page + length (text_to_spans bs ctext),
                   children := children page @ g\<rparr>"
  from Cons.prems(2) obtain ls'' where
    rest: "rewrite_lines bs page1 ls cs' = Inr (page', ls'')"
    and ls': "ls' = l\<lparr>structure := Some ids\<rparr> # ls''"
    by (auto simp: cs c rl page1_def g_def split: sum.splits)
  from Cons.IH [OF len rest] obtain groups where
    gl: "length groups = length ls" and ll: "length ls'' = length ls"
    and ch: "children page' = children page1 @ concat groups"
    and each: "\<forall>i<length ls. line_rewritten bs (ls ! i) (cs' ! i) (ls'' ! i) (groups ! i)"
    by blast
  have wl: "length (with_line_break fs) = length fs" for fs
    by (induction fs rule: with_line_break.induct) simp_all
  have g0: "line_rewritten bs l c (l\<lparr>structure := Some ids\<rparr>) g"
    unfolding line_rewritten_def g_def using ids c by (simp add: wl)
  have "\<forall>i<length (l # ls).
          line_rewritten bs ((l # ls) ! i) (cs ! i) (ls' ! i) ((g # groups) ! i)"
  proof (intro allI impI)
    fix i assume "i < length (l # ls)"
    then show "line_rewritten bs ((l # ls) ! i) (cs ! i) (ls' ! i) ((g # groups) ! i)"
      using g0 each by (cases i) (simp_all add: cs ls')
  qed
  moreover have "children page' = children page @ concat (g # groups)"
    using ch by (simp add: page1_def)
  moreover have "length (g # groups) = length (l # ls)" "length ls' = length (l # ls)"
    using gl ll ls' by simp_all
  ultimately show ?case by blast
qed

lemma with_line_break_types:
  "map (\<lambda>f. [type f]) (with_line_break fs) = map (\<lambda>f. [type f]) fs"
  by (induction fs rule: with_line_break.induct) simp_all

lemma with_line_break_contents:
  "fs \<noteq> [] \<Longrightarrow>
   map content (with_line_break fs) = map content (butlast fs) @ [content (last fs) @ [LF]]"
  by (induction fs rule: with_line_break.induct) simp_all




text \<open>
  C9. When the response's \<^verbatim>\<open>corrected_lines\<close> is the empty list,
  \<^verbatim>\<open>process_block_rewriting\<close> leaves the page and the Lines as they were, whatever the
  number of Lines; in particular for a block without Lines, where the two lengths are
  equal. An empty list is not truthy, so the length test is never reached.
\<close>

theorem empty_corrected_lines_keeps_lines:
  assumes "fst (generate retries (svc (map fmt lines)) loads) = JObj members"
    and "map_of members ''corrected_lines'' = Some (JArr [])"
  shows "fst (process_block_rewriting retries svc loads bs fmt page lines) = Inr (page, lines)"
proof (cases "generate retries (svc (map fmt lines)) loads")
  case (Pair response trace)
  with assms(1) have r: "response = JObj members" by simp
  from assms(2) have "members \<noteq> []" by auto
  with assms(2) have "corrected_lines_of response = Inr (JArr [])"
    by (simp add: corrected_lines_of_def r)
  then show ?thesis
    by (simp add: process_block_rewriting_def Pair)
qed

theorem empty_corrected_lines_keeps_lines_witness:
  "fst (process_block_rewriting 3 (\<lambda>ls n. Text ''r'')
     (\<lambda>s. Some (JObj [(''corrected_lines'', JArr [])])) html_parser
     (\<lambda>l. ''ab'') \<lparr>block_id = 5, children = []\<rparr> [])
   = Inr (\<lparr>block_id = 5, children = []\<rparr>, [])"
  by (rule empty_corrected_lines_keeps_lines [where members = "[(''corrected_lines'', JArr [])]"])
     (simp_all add: generate_def generate_loop.simps)

text \<open>
  C10. After a reconciliation that succeeds (the response holds a non-empty
  \<^verbatim>\<open>corrected_lines\<close> list as long as the block's Lines, and the call returns
  normally), the blocks newly registered with the page are, line by line, the spans of
  that line: the line's structure lists exactly their identities, their format lists
  are the singletons of the fragment types of the line's corrected text, in order, and
  every one of them carries the polygon and the page id of its Line, font
  \<^verbatim>\<open>Unknown\<close>, zero font weight, font size, minimum and maximum position, and the text
  extraction method \<^verbatim>\<open>gemini\<close>.
\<close>

theorem synthesized_spans_metadata:
  assumes "fst (generate retries (svc (map fmt lines)) loads) = JObj members"
    and "map_of members ''corrected_lines'' = Some (JArr cs)"
    and "cs \<noteq> []" and "length cs = length lines"
    and "fst (process_block_rewriting retries svc loads bs fmt page lines) = Inr (page', lines')"
  shows "\<exists>groups. length groups = length lines \<and> length lines' = length lines \<and>
           children page' = children page @ concat groups \<and>
           (\<forall>i<length lines.
              structure (lines' ! i) = Some (map fst (groups ! i)) \<and>
              (\<exists>ctext. cs ! i = JStr ctext \<and>
                 map (\<lambda>g. formats (snd g)) (groups ! i) =
                   map (\<lambda>f. [type f]) (text_to_spans bs ctext)) \<and>
              (\<forall>g \<in> set (groups ! i).
                 polygon (snd g) = polygon (lines ! i) \<and>
                 page_id (snd g) = page_id (lines ! i) \<and>
                 font (snd g) = ''Unknown'' \<and>
                 font_weight (snd g) = 0 \<and>
                 font_size (snd g) = 0 \<and>
                 minimum_position (snd g) = 0 \<and>
                 maximum_position (snd g) = 0 \<and>
                 text_extraction_method (snd g) = ''gemini''))"
proof (cases "generate retries (svc (map fmt lines)) loads")
  case (Pair response trace)
  with assms(1) have r: "response = JObj members" by simp
  from assms(2) have "members \<noteq> []" by auto
  with assms(2) have "corrected_lines_of response = Inr (JArr cs)"
    by (simp add: corrected_lines_of_def r)
  with assms(3,4,5) have rl: "rewrite_lines bs page lines cs = Inr (page', lines')"
    by (simp add: process_block_rewriting_def Pair)
  from rewrite_lines_shape [OF assms(4) rl] obtain groups where
    gl: "length groups = length lines" and ll: "length lines' = length lines"
    and ch: "children page' = children page @ concat groups"
    and each: "\<forall>i<length lines. line_rewritten bs (lines ! i) (cs ! i) (lines' ! i) (groups ! i)"
    by blast
  have "structure (lines' ! i) = Some (map fst (groups ! i)) \<and>
        (\<exists>ctext. cs ! i = JStr ctext \<and>
           map (\<lambda>g. formats (snd g)) (groups ! i) =
             map (\<lambda>f. [type f]) (text_to_spans bs ctext)) \<and>
        (\<forall>g \<in> set (groups ! i).
           polygon (snd g) = polygon (lines ! i) \<and>
           page_id (snd g) = page_id (lines ! i) \<and>
           font (snd g) = ''Unknown'' \<and>
           font_weight (snd g) = 0 \<and>
           font_size (snd g) = 0 \<and>
           minimum_position (snd g) = 0 \<and>
           maximum_position (snd g) = 0 \<and>
           text_extraction_method (snd g) = ''gemini'')" if "i < length lines" for i
  proof -
    from each that obtain ctext where c: "cs ! i = JStr ctext"
      and l': "lines' ! i = (lines ! i)\<lparr>structure := Some (map fst (groups ! i))\<rparr>"
      and sp: "map snd (groups ! i) =
                 map (SpanClass (lines ! i)) (with_line_break (text_to_spans bs ctext))"
      unfolding line_rewritten_def by blast
    have "map (\<lambda>g. formats (snd g)) (groups ! i) = map formats (map snd (groups ! i))"
      by simp
    also have "\<dots> = map (\<lambda>f. [type f]) (with_line_break (text_to_spans bs ctext))"
      unfolding sp by (simp add: SpanClass_def)
    also have "\<dots> = map (\<lambda>f. [type f]) (text_to_spans bs ctext)"
      by (rule with_line_break_types)
    finally have fm: "map (\<lambda>g. formats (snd g)) (groups ! i) =
                        map (\<lambda>f. [type f]) (text_to_spans bs ctext)" .
    have fields: "\<forall>g \<in> set (groups ! i).
           polygon (snd g) = polygon (lines ! i) \<and>
           page_id (snd g) = page_id (lines ! i) \<and>
           font (snd g) = ''Unknown'' \<and>
           font_weight (snd g) = 0 \<and>
           font_size (snd g) = 0 \<and>
           minimum_position (snd g) = 0 \<and>
           maximum_position (snd g) = 0 \<and>
           text_extraction_method (snd g) = ''gemini''"
    proof
      fix g assume "g \<in> set (groups ! i)"
      then have "snd g \<in> set (map snd (groups ! i))" by simp
      then obtain f where "snd g = SpanClass (lines ! i) f" unfolding sp by auto
      then show "polygon (snd g) = polygon (lines ! i) \<and>
           page_id (snd g) = page_id (lines ! i) \<and>
           font (snd g) = ''Unknown'' \<and>
           font_weight (snd g) = 0 \<and>
           font_size (snd g) = 0 \<and>
           minimum_position (snd g) = 0 \<and>
           maximum_position (snd g) = 0 \<and>
           text_extraction_method (snd g) = ''gemini''"
        by (simp add: SpanClass_def)
    qed
    show ?thesis using c l' fm fields by simp
  qed
  with gl ll ch show ?thesis by blast
qed

theorem synthesized_spans_metadata_witness:
  "fst (process_block_rewriting 3 (\<lambda>ls n. Text ''r'')
     (\<lambda>s. Some (JObj [(''corrected_lines'', JArr [JStr ''<b>x</b>y''])])) html_parser
     (\<lambda>l. ''xy'') \<lparr>block_id = 5, children = []\<rparr>
     [\<lparr>polygon = [(0, 0), (9, 2)], page_id = 1, structure = Some [3, 4]\<rparr>])
   = Inr (\<lparr>block_id = 7,
            children =
              [(5, \<lparr>polygon = [(0, 0), (9, 2)], page_id = 1, structure = None,
                     text = ''x'', font = ''Unknown'', font_weight = 0, font_size = 0,
                     minimum_position = 0, maximum_position = 0, formats = [''bold''],
                     text_extraction_method = ''gemini''\<rparr>),
               (6, \<lparr>polygon = [(0, 0), (9, 2)], page_id = 1, structure = None,
                     text = [CHR ''y'', LF], font = ''Unknown'', font_weight = 0,
                     font_size = 0, minimum_position = 0, maximum_position = 0,
                     formats = [''plain''], text_extraction_method = ''gemini''\<rparr>)]\<rparr>,
          [\<lparr>polygon = [(0, 0), (9, 2)], page_id = 1, structure = Some [5, 6]\<rparr>])
   \<and> (\<exists>groups. length groups = 1 \<and>
         [(5::nat, \<lparr>polygon = [(0, 0), (9, 2)], page_id = 1, structure = None,
                text = ''x'', font = ''Unknown'', font_weight = 0, font_size = 0,
                minimum_position = 0, maximum_position = 0, formats = [''bold''],
                text_extraction_method = ''gemini''\<rparr>),
          (6, \<lparr>polygon = [(0, 0), (9, 2)], page_id = 1, structure = None,
                text = [CHR ''y'', LF], font = ''Unknown'', font_weight = 0,
                font_size = 0, minimum_position = 0, maximum_position = 0,
                formats = [''plain''], text_extraction_method = ''gemini''\<rparr>)] = concat groups \<and>
         map fst (groups ! 0) = [5, 6] \<and>
         map (\<lambda>g. formats (snd g)) (groups ! 0) = [[''bold''], [''plain'']] \<and>
         list_all (\<lambda>g. polygon (snd g) = [(0, 0), (9, 2)] \<and> page_id (snd g) = 1 \<and>
                        font (snd g) = ''Unknown'' \<and> text_extraction_method (snd g) = ''gemini'')
           (groups ! 0))"
proof -
  let ?svc = "\<lambda>(ls::string list) (n::nat). Text ''r''"
  let ?loads = "\<lambda>s::string. Some (JObj [(''corrected_lines'', JArr [JStr ''<b>x</b>y''])])"
  let ?page = "\<lparr>block_id = 5, children = []\<rparr>"
  let ?lines = "[\<lparr>polygon = [(0, 0), (9, 2)], page_id = 1, structure = Some [3, 4]\<rparr>]"
  let ?page' = "\<lparr>block_id = 7,
            children =
              [(5, \<lparr>polygon = [(0, 0), (9, 2)], page_id = 1, structure = None,
                     text = ''x'', font = ''Unknown'', font_weight = 0, font_size = 0,
                     minimum_position = 0, maximum_position = 0, formats = [''bold''],
                     text_extraction_method = ''gemini''\<rparr>),
               (6, \<lparr>polygon = [(0, 0), (9, 2)], page_id = 1, structure = None,
                     text = [CHR ''y'', LF], font = ''Unknown'', font_weight = 0,
                     font_size = 0, minimum_position = 0, maximum_position = 0,
                     formats = [''plain''], text_extraction_method = ''gemini''\<rparr>)]\<rparr>"
  let ?lines' = "[\<lparr>polygon = [(0, 0), (9, 2)], page_id = 1, structure = Some [5, 6]\<rparr>]"
  have run: "fst (process_block_rewriting 3 ?svc ?loads html_parser (\<lambda>l. ''xy'') ?page ?lines)
             = Inr (?page', ?lines')"
    by (simp add: run_eval)
  have gen: "fst (generate 3 (?svc (map (\<lambda>l. ''xy'') ?lines)) ?loads) =
             JObj [(''corrected_lines'', JArr [JStr ''<b>x</b>y''])]"
    by (simp add: generate_def generate_loop.simps)
  have sp: "text_to_spans html_parser ''<b>x</b>y'' =
            [\<lparr>type = ''bold'', content = ''x''\<rparr>, \<lparr>type = ''plain'', content = ''y''\<rparr>]"
    by (simp add: parser_eval)
  from synthesized_spans_metadata [of 3 ?svc "\<lambda>l. ''xy''" ?lines ?loads
             "[(''corrected_lines'', JArr [JStr ''<b>x</b>y''])]" "[JStr ''<b>x</b>y'']"
             html_parser ?page ?page' ?lines', OF gen _ _ _ run]
  obtain groups where g: "length groups = length ?lines"
    "children ?page' = children ?page @ concat groups"
    "\<forall>i<length ?lines.
        structure (?lines' ! i) = Some (map fst (groups ! i)) \<and>
        (\<exists>ctext. [JStr ''<b>x</b>y''] ! i = JStr ctext \<and>
           map (\<lambda>g. formats (snd g)) (groups ! i) =
             map (\<lambda>f. [type f]) (text_to_spans html_parser ctext)) \<and>
        (\<forall>g \<in> set (groups ! i).
           polygon (snd g) = polygon (?lines ! i) \<and>
           page_id (snd g) = page_id (?lines ! i) \<and>
           font (snd g) = ''Unknown'' \<and>
           font_weight (snd g) = 0 \<and>
           font_size (snd g) = 0 \<and>
           minimum_position (snd g) = 0 \<and>
           maximum_position (snd g) = 0 \<and>
           text_extraction_method (snd g) = ''gemini'')"
    by auto
  from g(3) have "map fst (groups ! 0) = [5, 6]"
    and "map (\<lambda>g. formats (snd g)) (groups ! 0) = [[''bold''], [''plain'']]"
    and "list_all (\<lambda>g. polygon (snd g) = [(0, 0), (9, 2)] \<and> page_id (snd g) = 1 \<and>
                        font (snd g) = ''Unknown'' \<and> text_extraction_method (snd g) = ''gemini'')
           (groups ! 0)"
    by (simp_all add: sp list_all_iff)
  with g(1,2) have "\<exists>groups. length groups = 1 \<and>
         [(5::nat, \<lparr>polygon = [(0, 0), (9, 2)], page_id = 1, structure = None,
                text = ''x'', font = ''Unknown'', font_weight = 0, font_size = 0,
                minimum_position = 0, maximum_position = 0, formats = [''bold''],
                text_extraction_method = ''gemini''\<rparr>),
          (6, \<lparr>polygon = [(0, 0), (9, 2)], page_id = 1, structure = None,
                text = [CHR ''y'', LF], font = ''Unknown'', font_weight = 0,
                font_size = 0, minimum_position = 0, maximum_position = 0,
                formats = [''plain''], text_extraction_method = ''gemini''\<rparr>)] = concat groups \<and>
         map fst (groups ! 0) = [5, 6] \<and>
         map (\<lambda>g. formats (snd g)) (groups ! 0) = [[''bold''], [''plain'']] \<and>
         list_all (\<lambda>g. polygon (snd g) = [(0, 0), (9, 2)] \<and> page_id (snd g) = 1 \<and>
                        font (snd g) = ''Unknown'' \<and> text_extraction_method (snd g) = ''gemini'')
           (groups ! 0)"
    by (intro exI [of _ groups]) simp
  with run show ?thesis by (rule conjI)
qed

section \<open>Properties of \<^verbatim>\<open>text_to_spans\<close>\<close>

lemma nested_silent: "2 \<le> d \<Longrightarrow> x \<in> set (walk d e) \<Longrightarrow> element_spans x = []"
  by (induction d e rule: walk.induct) (auto simp: element_spans_def)

lemma nested_walks_silent:
  "2 \<le> d \<Longrightarrow> concat (map element_spans (concat (map (walk d) es))) = []"
  by (auto dest: nested_silent)

lemma walk_top: "concat (map element_spans (walk 1 e)) = element_spans (1, e)"
  using nested_walks_silent [of "Suc 1"] by (cases e) simp_all

lemma walks_top:
  "concat (map element_spans (concat (map (walk 1) es))) =
   concat (map (\<lambda>e. element_spans (1, e)) es)"
  by (induction es) (simp_all add: walk_top del: One_nat_def)

lemma text_to_spans_top:
  "text_to_spans bs s = concat (map (\<lambda>e. element_spans (1, e)) (contents (bs s)))"
  by (simp add: text_to_spans_def descendants_def walks_top del: One_nat_def)

lemma element_spans_length: "length (element_spans de) \<le> 1"
  by (cases de) (simp add: element_spans_def split: option.splits)

lemma concat_length_le:
  "(\<And>x. length (f x) \<le> 1) \<Longrightarrow> length (concat (map f xs)) \<le> length xs"
proof (induction xs)
  case Nil
  then show ?case by simp
next
  case (Cons a xs)
  have "length (f a) \<le> 1" by (rule Cons.prems)
  moreover have "length (concat (map f xs)) \<le> length xs"
    by (rule Cons.IH) (rule Cons.prems)
  ultimately show ?case by simp
qed

text \<open>
  C4. On \<^verbatim>\<open><b>foo</b> <math>x=1</math> bar\<close> the markup parser yields the four
  fragments bold \<^verbatim>\<open>foo\<close>, plain space, math \<^verbatim>\<open>x=1\<close>, plain \<^verbatim>\<open> bar\<close>, in this order. For
  every input and every tree builder the fragment list is made from the direct children
  of the root alone, at most one fragment for each of them: an element nested two or
  more levels below the root adds no fragment of its own.
\<close>

theorem text_to_spans_example_and_top_level_only:
  "text_to_spans html_parser ''<b>foo</b> <math>x=1</math> bar'' =
     [\<lparr>type = ''bold'', content = ''foo''\<rparr>, \<lparr>type = ''plain'', content = '' ''\<rparr>,
      \<lparr>type = ''math'', content = ''x=1''\<rparr>, \<lparr>type = ''plain'', content = '' bar''\<rparr>]
   \<and> text_to_spans bs s = concat (map (\<lambda>e. element_spans (1, e)) (contents (bs s)))
   \<and> length (text_to_spans bs s) \<le> length (contents (bs s))"
proof (intro conjI)
  show "text_to_spans html_parser ''<b>foo</b> <math>x=1</math> bar'' =
     [\<lparr>type = ''bold'', content = ''foo''\<rparr>, \<lparr>type = ''plain'', content = '' ''\<rparr>,
      \<lparr>type = ''math'', content = ''x=1''\<rparr>, \<lparr>type = ''plain'', content = '' bar''\<rparr>]"
    by (simp add: parser_eval)
  show "text_to_spans bs s = concat (map (\<lambda>e. element_spans (1, e)) (contents (bs s)))"
    by (rule text_to_spans_top)
  show "length (text_to_spans bs s) \<le> length (contents (bs s))"
    unfolding text_to_spans_top by (rule concat_length_le) (rule element_spans_length)
qed

text \<open>
  C7. A top-level tag whose name is not in the type table is never emitted with a type
  other than plain; the fragments the parser emits for it, between those of its
  siblings, are one plain fragment holding the tag's \<^verbatim>\<open>.string\<close> when the tag has one
  that is not empty (its only child is a string, directly or through a chain of only
  children), and no fragment otherwise. The tag \<^verbatim>\<open><u>a<b>c</b></u>\<close> has two
  children, hence no \<^verbatim>\<open>.string\<close>, and nothing of its inner content is emitted.
\<close>

theorem unregistered_tag_plain_from_string:
  assumes "map_of tag_types n = None"
    and "contents (bs s) = before @ [Tag n cs] @ after"
  shows "text_to_spans bs s =
           concat (map (\<lambda>e. element_spans (1, e)) before) @
           (case string (Tag n cs) of
              Some t \<Rightarrow> if t = [] then [] else [\<lparr>type = ''plain'', content = t\<rparr>]
            | None \<Rightarrow> []) @
           concat (map (\<lambda>e. element_spans (1, e)) after)"
  using assms by (simp add: text_to_spans_top element_spans_def split: option.splits)

theorem unregistered_tag_plain_from_string_witness:
  "map_of tag_types ''u'' = None
   \<and> contents (html_parser ''<u>x</u>y'') = [] @ [Tag ''u'' [NavigableString ''x'']] @ [NavigableString ''y'']
   \<and> text_to_spans html_parser ''<u>x</u>y'' =
       [\<lparr>type = ''plain'', content = ''x''\<rparr>, \<lparr>type = ''plain'', content = ''y''\<rparr>]"
proof -
  have a: "map_of tag_types ''u'' = None" by (simp add: tag_types_def)
  have b: "contents (html_parser ''<u>x</u>y'') =
           [] @ [Tag ''u'' [NavigableString ''x'']] @ [NavigableString ''y'']"
    by (simp add: parser_eval)
  from unregistered_tag_plain_from_string [of "''u''" html_parser "''<u>x</u>y''" "[]" "[NavigableString ''x'']"
             "[NavigableString ''y'']", OF a b]
  have "text_to_spans html_parser ''<u>x</u>y'' =
       [\<lparr>type = ''plain'', content = ''x''\<rparr>, \<lparr>type = ''plain'', content = ''y''\<rparr>]"
    by (simp add: element_spans_def)
  with a b show ?thesis by (intro conjI)
qed

theorem unregistered_tag_mixed_content_dropped: "text_to_spans html_parser ''<u>a<b>c</b></u>'' = []"
  by (simp add: parser_eval)

section \<open>Line feeds of the synthesized spans\<close>

text \<open>
  C5. When the corrected text of a line parses into at least one fragment, the spans
  registered for the line carry, in order, the contents of the fragments, and only the
  last one gets a line feed appended: the last span's text is the last fragment's
  content followed by a line feed, and the text of each earlier span is its fragment's
  content unchanged. An earlier span therefore ends with a line feed exactly when its
  fragment's own content does, as in \<^verbatim>\<open>a\n<b>c</b>\<close>, where the first of the two spans
  is \<^verbatim>\<open>a\n\<close>.
\<close>

theorem line_feed_appended_to_last_span_only:
  assumes "text_to_spans bs ctext \<noteq> []"
  shows "map (\<lambda>g. text (snd g))
           (drop (length (children page)) (children (fst (rewrite_line bs page l ctext))))
         = map content (butlast (text_to_spans bs ctext)) @
           [content (last (text_to_spans bs ctext)) @ [LF]]"
proof -
  obtain ids where ids: "length ids = length (text_to_spans bs ctext)"
    and rl: "rewrite_line bs page l ctext =
       (page\<lparr>block_id := block_id page + length (text_to_spans bs ctext),
             children := children page @
               zip ids (map (SpanClass l) (with_line_break (text_to_spans bs ctext)))\<rparr>,
        l\<lparr>structure := Some ids\<rparr>)"
    using rewrite_line_shape by blast
  have wl: "length (with_line_break fs) = length fs" for fs
    by (induction fs rule: with_line_break.induct) simp_all
  have "map (\<lambda>g. text (snd g))
           (drop (length (children page)) (children (fst (rewrite_line bs page l ctext))))
        = map text (map snd (zip ids (map (SpanClass l) (with_line_break (text_to_spans bs ctext)))))"
    by (simp add: rl)
  also have "\<dots> = map text (map (SpanClass l) (with_line_break (text_to_spans bs ctext)))"
    using ids by (simp add: wl)
  also have "\<dots> = map content (with_line_break (text_to_spans bs ctext))"
    by (simp add: SpanClass_def)
  also have "\<dots> = map content (butlast (text_to_spans bs ctext)) @
           [content (last (text_to_spans bs ctext)) @ [LF]]"
    using assms by (rule with_line_break_contents)
  finally show ?thesis .
qed

theorem line_feed_appended_to_last_span_only_witness:
  "text_to_spans html_parser ''<b>x</b>y'' \<noteq> []
   \<and> map (\<lambda>g. text (snd g))
        (drop (length (children \<lparr>block_id = 5, children = []\<rparr>))
           (children (fst (rewrite_line html_parser \<lparr>block_id = 5, children = []\<rparr>
              \<lparr>polygon = [(0, 0), (9, 2)], page_id = 1, structure = Some [3, 4]\<rparr>
              ''<b>x</b>y''))))
       = [''x'', [CHR ''y'', LF]]"
proof -
  have sp: "text_to_spans html_parser ''<b>x</b>y'' =
            [\<lparr>type = ''bold'', content = ''x''\<rparr>, \<lparr>type = ''plain'', content = ''y''\<rparr>]"
    by (simp add: parser_eval)
  then have ne: "text_to_spans html_parser ''<b>x</b>y'' \<noteq> []" by simp
  from line_feed_appended_to_last_span_only [OF ne, of "\<lparr>block_id = 5, children = []\<rparr>"
             "\<lparr>polygon = [(0, 0), (9, 2)], page_id = 1, structure = Some [3, 4]\<rparr>"]
  have "map (\<lambda>g. text (snd g))
        (drop (length (children \<lparr>block_id = 5, children = []\<rparr>))
           (children (fst (rewrite_line html_parser \<lparr>block_id = 5, children = []\<rparr>
              \<lparr>polygon = [(0, 0), (9, 2)], page_id = 1, structure = Some [3, 4]\<rparr>
              ''<b>x</b>y''))))
       = [''x'', [CHR ''y'', LF]]"
    by (simp add: sp)
  with ne show ?thesis by (rule conjI)
qed

theorem earlier_span_ends_with_line_feed:
  "map (\<lambda>g. text (snd g))
     (children (fst (rewrite_line html_parser \<lparr>block_id = 0, children = []\<rparr>
        \<lparr>polygon = [], page_id = 0, structure = None\<rparr> (''a'' @ [LF] @ ''<b>c</b>''))))
   = [[CHR ''a'', LF], [CHR ''c'', LF]]"
  by (simp add: rewrite_line_def add_full_block_def SpanClass_def parser_eval)

section \<open>Properties of construction and invocation\<close>

text \<open>
  C6. With \<^verbatim>\<open>high_quality\<close> set and no \<^verbatim>\<open>google_api_key\<close>, construction raises
  \<^verbatim>\<open>ValueError\<close>; construction takes no service and has no effect on it, so no request
  precedes the error. With \<^verbatim>\<open>high_quality\<close> unset, construction succeeds whatever the
  key, leaves \<^verbatim>\<open>model\<close> unset, and invoking the processor returns the document as it
  was, with no request and no sleep.
\<close>

theorem missing_key_is_fatal_and_disabled_is_noop:
  "(high_quality self \<and> google_api_key self = None \<longrightarrow> init self = Inl ValueError)
   \<and> (\<not> high_quality self \<longrightarrow>
        init self = Inr (self\<lparr>model := None\<rparr>)
        \<and> call (self\<lparr>model := None\<rparr>) svc loads bs fmt document = (Inr document, []))"
  by (simp add: init_def call_def Let_def)

theorem missing_key_is_fatal_and_disabled_is_noop_witness:
  "init \<lparr>google_api_key = None, model_name = ''gemini-1.5-flash'', high_quality = True,
         max_retries = 3, max_concurrency = 3, timeout = 60, model = None\<rparr> = Inl ValueError
   \<and> init \<lparr>google_api_key = None, model_name = ''gemini-1.5-flash'', high_quality = False,
           max_retries = 3, max_concurrency = 3, timeout = 60, model = Some ''m''\<rparr>
       = Inr \<lparr>google_api_key = None, model_name = ''gemini-1.5-flash'', high_quality = False,
              max_retries = 3, max_concurrency = 3, timeout = 60, model = None\<rparr>
   \<and> call \<lparr>google_api_key = None, model_name = ''gemini-1.5-flash'', high_quality = False,
           max_retries = 3, max_concurrency = 3, timeout = 60, model = None\<rparr>
        (\<lambda>ls n. Text ''r'') (\<lambda>s. Some (JObj [(''corrected_lines'', JArr [JStr ''z''])]))
        html_parser (\<lambda>l. ''xy'')
        [(\<lparr>block_id = 5, children = []\<rparr>,
          [[\<lparr>polygon = [(0, 0), (9, 2)], page_id = 1, structure = Some [3, 4]\<rparr>]])]
       = (Inr [(\<lparr>block_id = 5, children = []\<rparr>,
                [[\<lparr>polygon = [(0, 0), (9, 2)], page_id = 1, structure = Some [3, 4]\<rparr>]])], [])"
  using
    missing_key_is_fatal_and_disabled_is_noop [of "\<lparr>google_api_key = None, model_name = ''gemini-1.5-flash'', high_quality = True,
         max_retries = 3, max_concurrency = 3, timeout = 60, model = None\<rparr>"]
    missing_key_is_fatal_and_disabled_is_noop [of "\<lparr>google_api_key = None, model_name = ''gemini-1.5-flash'', high_quality = False,
           max_retries = 3, max_concurrency = 3, timeout = 60, model = Some ''m''\<rparr>"
        "\<lambda>ls n. Text ''r''" "\<lambda>s. Some (JObj [(''corrected_lines'', JArr [JStr ''z''])])"
        html_parser "\<lambda>l. ''xy''"
        "[(\<lparr>block_id = 5, children = []\<rparr>,
          [[\<lparr>polygon = [(0, 0), (9, 2)], page_id = 1, structure = Some [3, 4]\<rparr>]])]"]
  by simp

section \<open>Properties of \<^verbatim>\<open>assemble_html\<close>\<close>

lemma replace_line_feed:
  "replace [LF] '' '' s = map (\<lambda>c. if c = LF then CHR '' '' else c) s"
  by (induction s) simp_all

text \<open>
  C8. For a Caption and for a Handwriting block, \<^verbatim>\<open>assemble_html\<close> returns the text
  assembled by the superclass with every line feed replaced by a space, wrapped in
  \<^verbatim>\<open><p>\<close> and \<^verbatim>\<open></p>\<close>. It is the assembled text itself that is wrapped only when that
  text holds no line feed: for \<^verbatim>\<open>a\nb\<close> the result is \<^verbatim>\<open><p>a b</p>\<close>.
\<close>

theorem assemble_html_replaces_line_feeds:
  "Caption_assemble_html template =
     ''<p>'' @ map (\<lambda>c. if c = LF then CHR '' '' else c) template @ ''</p>''
   \<and> Handwriting_assemble_html template =
     ''<p>'' @ map (\<lambda>c. if c = LF then CHR '' '' else c) template @ ''</p>''"
  by (simp add: Caption_assemble_html_def Handwriting_assemble_html_def replace_line_feed)

theorem assemble_html_changes_line_feeds:
  "Caption_assemble_html [CHR ''a'', LF, CHR ''b''] \<noteq> ''<p>'' @ [CHR ''a'', LF, CHR ''b''] @ ''</p>''
   \<and> Handwriting_assemble_html [CHR ''a'', LF, CHR ''b''] \<noteq> ''<p>'' @ [CHR ''a'', LF, CHR ''b''] @ ''</p>''"
  by (simp add: Caption_assemble_html_def Handwriting_assemble_html_def)

end
